theory Spec2Isabelle
  imports Main "HOL-Library.Word" "HOL-Library.Char_ord"
begin

unbundle bit_operations_syntax

section \<open>Go values\<close>

text \<open>
  A Go \<^verbatim>\<open>string\<close> is a sequence of bytes: \<^typ>\<open>string\<close>, whose characters are
  8-bit. \<^verbatim>\<open>int64\<close> is a 64-bit word read in two's complement (\<^const>\<open>sint\<close>); Go's
  \<^verbatim>\<open>int\<close> is 64 bits wide on the platforms the service is built for, so
  \<^verbatim>\<open>int(x)\<close> of an \<^verbatim>\<open>int64\<close> is the identity. A \<^verbatim>\<open>float64\<close> is kept as its 64-bit
  IEEE-754 pattern; no arithmetic is done on it, and its decimal conversions
  (\<^verbatim>\<open>strconv.FormatFloat\<close>, \<^verbatim>\<open>strconv.ParseFloat\<close>) are parameters of the two
  handlers that call them.
\<close>

type_synonym int64 = "64 word"
type_synonym float64 = "64 word"

subsection \<open>crypto/subtle.ConstantTimeCompare and timingSafeEq\<close>

text \<open>
  \<^verbatim>\<open>ConstantTimeCompare(x, y)\<close>: 0 when the lengths differ; otherwise the bytes are
  XORed pairwise, the results ORed into one byte \<open>v\<close>, and the answer is 1 iff \<open>v = 0\<close>.
\<close>

fun ctAccum :: "8 word \<Rightarrow> string \<Rightarrow> string \<Rightarrow> 8 word" where
  "ctAccum v (x # xs) (y # ys) = ctAccum (v OR (of_char x XOR of_char y)) xs ys"
| "ctAccum v _ _ = v"

definition ConstantTimeCompare :: "string \<Rightarrow> string \<Rightarrow> int" where
  "ConstantTimeCompare x y =
     (if length x \<noteq> length y then 0
      else if ctAccum 0 x y = 0 then 1 else 0)"

definition timingSafeEq :: "string \<Rightarrow> string \<Rightarrow> bool" where
  "timingSafeEq a b \<longleftrightarrow> ConstantTimeCompare a b = 1"

text \<open>
  The condition under which the specification wants a call refused: the token is empty,
  no secret is configured, or the two differ.
\<close>

definition badToken :: "string \<Rightarrow> string \<Rightarrow> bool" where
  "badToken token secret \<longleftrightarrow> token = [] \<or> secret = [] \<or> token \<noteq> secret"

subsection \<open>strings.TrimSpace\<close>

text \<open>
  \<^verbatim>\<open>strings.TrimSpace\<close> removes leading and trailing runes for which
  \<^verbatim>\<open>unicode.IsSpace\<close> holds: the six ASCII ones, U+0085 and U+00A0 (two bytes in
  UTF-8), and U+1680, U+2000 to U+200A, U+2028, U+2029, U+202F, U+205F, U+3000 (three
  bytes). Go decodes only shortest-form UTF-8, and a byte sequence that is no valid
  encoding decodes to U+FFFD, which is no space: so a space rune stands at the front
  (at the end) of a string exactly when one of these byte sequences is a prefix (a
  suffix) of it.
\<close>

definition asciiSpace :: "char \<Rightarrow> bool" where
  "asciiSpace c \<longleftrightarrow>
     c = CHR 0x09 \<or> c = CHR 0x0A \<or> c = CHR 0x0B \<or> c = CHR 0x0C \<or> c = CHR 0x0D \<or> c = CHR 0x20"

definition space2 :: "char \<Rightarrow> char \<Rightarrow> bool" where
  "space2 a b \<longleftrightarrow> a = CHR 0xC2 \<and> (b = CHR 0x85 \<or> b = CHR 0xA0)"

definition space3 :: "char \<Rightarrow> char \<Rightarrow> char \<Rightarrow> bool" where
  "space3 a b c \<longleftrightarrow>
     (a = CHR 0xE1 \<and> b = CHR 0x9A \<and> c = CHR 0x80) \<or>
     (a = CHR 0xE2 \<and> b = CHR 0x80 \<and>
        ((CHR 0x80 \<le> c \<and> c \<le> CHR 0x8A) \<or> c = CHR 0xA8 \<or> c = CHR 0xA9 \<or> c = CHR 0xAF)) \<or>
     (a = CHR 0xE2 \<and> b = CHR 0x81 \<and> c = CHR 0x9F) \<or>
     (a = CHR 0xE3 \<and> b = CHR 0x80 \<and> c = CHR 0x80)"

text \<open>The width in bytes of the space rune at the front of a string, 0 when there is none.\<close>

fun spaceWidth :: "string \<Rightarrow> nat" where
  "spaceWidth [] = 0"
| "spaceWidth [a] = (if asciiSpace a then 1 else 0)"
| "spaceWidth [a, b] = (if asciiSpace a then 1 else if space2 a b then 2 else 0)"
| "spaceWidth (a # b # c # s) =
     (if asciiSpace a then 1 else if space2 a b then 2 else if space3 a b c then 3 else 0)"

text \<open>The same for the rune at the end, on the reversed string.\<close>

fun spaceWidthLast :: "string \<Rightarrow> nat" where
  "spaceWidthLast [] = 0"
| "spaceWidthLast [c] = (if asciiSpace c then 1 else 0)"
| "spaceWidthLast [c, b] = (if asciiSpace c then 1 else if space2 b c then 2 else 0)"
| "spaceWidthLast (c # b # a # s) =
     (if asciiSpace c then 1 else if space2 b c then 2 else if space3 a b c then 3 else 0)"

lemma spaceWidth_le: "spaceWidth s \<le> length s"
  by (induction s rule: spaceWidth.induct) auto

lemma spaceWidthLast_le: "spaceWidthLast s \<le> length s"
  by (induction s rule: spaceWidthLast.induct) auto

function TrimLeftSpace :: "string \<Rightarrow> string" where
  "TrimLeftSpace s = (if spaceWidth s = 0 then s else TrimLeftSpace (drop (spaceWidth s) s))"
  by pat_completeness auto
termination
proof (relation "measure length")
  fix s :: string
  assume "spaceWidth s \<noteq> 0"
  then show "(drop (spaceWidth s) s, s) \<in> measure length"
    using spaceWidth_le [of s] by simp
qed simp

function TrimRightSpaceRev :: "string \<Rightarrow> string" where
  "TrimRightSpaceRev r =
     (if spaceWidthLast r = 0 then r else TrimRightSpaceRev (drop (spaceWidthLast r) r))"
  by pat_completeness auto
termination
proof (relation "measure length")
  fix r :: string
  assume "spaceWidthLast r \<noteq> 0"
  then show "(drop (spaceWidthLast r) r, r) \<in> measure length"
    using spaceWidthLast_le [of r] by simp
qed simp

declare TrimLeftSpace.simps [simp del] TrimRightSpaceRev.simps [simp del]

definition TrimRightSpace :: "string \<Rightarrow> string" where
  "TrimRightSpace s = rev (TrimRightSpaceRev (rev s))"

definition TrimSpace :: "string \<Rightarrow> string" where
  "TrimSpace s = TrimRightSpace (TrimLeftSpace s)"

subsection \<open>strconv.FormatInt, strconv.Itoa and strconv.ParseInt, base 10\<close>

text \<open>The decimal digits of a natural number, most significant first.\<close>

definition digitChar :: "nat \<Rightarrow> char" where
  "digitChar d = ''0123456789'' ! d"

fun digitsOf :: "nat \<Rightarrow> string" where
  "digitsOf n =
     (if n < 10 then [digitChar n]
      else digitsOf (n div 10) @ [digitChar (n mod 10)])"

declare digitsOf.simps [simp del]

definition FormatInt :: "int64 \<Rightarrow> string" where
  "FormatInt i =
     (if sint i < 0 then CHR ''-'' # digitsOf (nat (- sint i)) else digitsOf (nat (sint i)))"

definition Itoa :: "int64 \<Rightarrow> string" where
  "Itoa i = FormatInt i"

definition isDigit :: "char \<Rightarrow> bool" where
  "isDigit c \<longleftrightarrow> CHR ''0'' \<le> c \<and> c \<le> CHR ''9''"

fun natOfDigits :: "nat \<Rightarrow> string \<Rightarrow> nat" where
  "natOfDigits n [] = n"
| "natOfDigits n (c # cs) = natOfDigits (n * 10 + (of_char c - 48)) cs"

text \<open>
  \<^verbatim>\<open>strconv.ParseInt(s, 10, 64)\<close>: an optional sign, then one or more decimal digits
  and nothing else (a syntax error otherwise); a value outside the \<^verbatim>\<open>int64\<close> range is a
  range error. The handler that calls it only tests whether the error is nil, so both
  errors are \<^const>\<open>None\<close>.
\<close>

definition ParseInt :: "string \<Rightarrow> int64 option" where
  "ParseInt s =
     (let neg = (s \<noteq> [] \<and> hd s = CHR ''-'');
          ds = (if s \<noteq> [] \<and> (hd s = CHR ''+'' \<or> hd s = CHR ''-'') then tl s else s)
      in if ds = [] \<or> \<not> list_all isDigit ds then None
         else let un = natOfDigits 0 ds
              in if \<not> neg \<and> un \<ge> 2 ^ 63 then None
                 else if neg \<and> un > 2 ^ 63 then None
                 else Some (if neg then - word_of_nat un else word_of_nat un))"

section \<open>JSON values and responses\<close>

text \<open>
  What \<^verbatim>\<open>encoding/json\<close> writes for the values the handlers pass to it: a number
  from an integer type, a number from a \<^verbatim>\<open>float64\<close>, a string, a boolean, null, or an
  object. A \<^verbatim>\<open>map[string]...\<close> is written with its keys sorted, a struct with its
  fields in declaration order.
\<close>

datatype json =
    JNull
  | JBool bool
  | JInt int
  | JFloat float64
  | JStr string
  | JObj "(string \<times> json) list"

record Response =
  StatusCode :: int
  Headers :: "(string \<times> string) list"
  Body :: json

text \<open>\<^verbatim>\<open>writeJSON\<close> of src/main.go and \<^verbatim>\<open>resp\<close> of the four Lambda handlers.\<close>

definition resp :: "int \<Rightarrow> json \<Rightarrow> Response" where
  "resp status v =
     \<lparr>StatusCode = status,
      Headers = [(''Content-Type'', ''application/json''), (''Access-Control-Allow-Origin'', ''*'')],
      Body = v\<rparr>"

definition writeJSON :: "int \<Rightarrow> json \<Rightarrow> Response" where
  "writeJSON status v = resp status v"

definition writeErr :: "int \<Rightarrow> string \<Rightarrow> Response" where
  "writeErr status msg = writeJSON status (JObj [(''error'', JStr msg)])"

section \<open>The volatile backend: src/main.go\<close>

record Command =
  DeviceID :: string
  Type :: string
  DurationMinutes :: int64
  CreatedAt :: int64
  Token :: string

text \<open>
  The two package-level maps. Both handlers touch them only while holding the mutex
  \<^verbatim>\<open>mu\<close>, so a handler's access to them is one indivisible step on this state.
\<close>

record VState =
  latestByDevice :: "string \<rightharpoonup> Command"
  lastServedAt :: "string \<rightharpoonup> int64"

text \<open>Indexing a Go map: the zero value when the key is absent.\<close>

definition lookupInt64 :: "(string \<rightharpoonup> int64) \<Rightarrow> string \<Rightarrow> int64" where
  "lookupInt64 m k = (case m k of None \<Rightarrow> 0 | Some v \<Rightarrow> v)"

text \<open>
  An incoming request, as far as the handlers read it: the method, the first value of
  each query parameter (\<^verbatim>\<open>Query().Get\<close> gives the empty string for a missing one), and
  what \<^verbatim>\<open>json.NewDecoder(r.Body).Decode(&cmd)\<close> makes of the body: \<^const>\<open>None\<close> when
  it returns an error, the decoded struct otherwise (a field the body leaves out is the
  zero value).
\<close>

record HTTPRequest =
  Method :: string
  Query :: "string \<rightharpoonup> string"
  Decoded :: "Command option"

definition QueryGet :: "(string \<rightharpoonup> string) \<Rightarrow> string \<Rightarrow> string" where
  "QueryGet q k = (case q k of None \<Rightarrow> [] | Some v \<Rightarrow> v)"

text \<open>The JSON of a \<^verbatim>\<open>Command\<close>: \<^verbatim>\<open>token\<close> is \<^verbatim>\<open>omitempty\<close>.\<close>

definition jsonCommand :: "Command \<Rightarrow> json" where
  "jsonCommand c =
     JObj ([(''deviceId'', JStr (DeviceID c)),
            (''type'', JStr (Type c)),
            (''durationMinutes'', JInt (sint (DurationMinutes c))),
            (''createdAt'', JInt (sint (CreatedAt c)))]
           @ (if Token c = [] then [] else [(''token'', JStr (Token c))]))"

definition jsonLatestResponse :: "json option \<Rightarrow> json" where
  "jsonLatestResponse c = JObj [(''command'', case c of None \<Rightarrow> JNull | Some j \<Rightarrow> j)]"

text \<open>
  \<^verbatim>\<open>startMachine\<close>. \<open>sharedSecret\<close> is the package variable read from the environment
  at start-up, \<open>now\<close> what \<^verbatim>\<open>time.Now().UnixMilli()\<close> returns.
\<close>

definition startMachine :: "string \<Rightarrow> int64 \<Rightarrow> HTTPRequest \<Rightarrow> VState \<Rightarrow> Response \<times> VState" where
  "startMachine sharedSecret now r st =
     (if Method r \<noteq> ''POST'' then (writeErr 405 ''method not allowed'', st)
      else case Decoded r of
        None \<Rightarrow> (writeErr 400 ''invalid json'', st)
      | Some cmd \<Rightarrow>
          if Token cmd = [] \<or> \<not> timingSafeEq (Token cmd) sharedSecret
            then (writeErr 401 ''unauthorized'', st)
          else if DeviceID cmd = [] then (writeErr 400 ''deviceId required'', st)
          else if Type cmd \<noteq> ''wash'' \<and> Type cmd \<noteq> ''dry''
            then (writeErr 400 ''type must be wash or dry'', st)
          else if sint (DurationMinutes cmd) \<le> 0
            then (writeErr 400 ''duration must be greater than 0 minutes'', st)
          else
            let cmd' = cmd\<lparr>CreatedAt := now, Token := []\<rparr> in
              (writeJSON 200 (JObj [(''createdAt'', JInt (sint (CreatedAt cmd'))), (''ok'', JBool True)]),
               st\<lparr>latestByDevice := (latestByDevice st)(DeviceID cmd' \<mapsto> cmd')\<rparr>))"

definition getLatest :: "string \<Rightarrow> HTTPRequest \<Rightarrow> VState \<Rightarrow> Response \<times> VState" where
  "getLatest sharedSecret r st =
     (if Method r \<noteq> ''GET'' then (writeErr 405 ''method not allowed'', st)
      else
        let deviceID = QueryGet (Query r) ''deviceId'';
            token = QueryGet (Query r) ''token''
        in
          if deviceID = [] then (writeErr 400 ''deviceId required'', st)
          else if token = [] \<or> \<not> timingSafeEq token sharedSecret
            then (writeErr 401 ''unauthorized'', st)
          else case latestByDevice st deviceID of
            None \<Rightarrow> (writeJSON 200 (jsonLatestResponse None), st)
          | Some cmd \<Rightarrow>
              if sint (lookupInt64 (lastServedAt st) deviceID) \<ge> sint (CreatedAt cmd)
                then (writeJSON 200 (jsonLatestResponse None), st)
              else
                (writeJSON 200 (jsonLatestResponse (Some (jsonCommand cmd))),
                 st\<lparr>lastServedAt := (lastServedAt st)(deviceID \<mapsto> CreatedAt cmd)\<rparr>))"

section \<open>The durable backend: a DynamoDB table per handler\<close>

text \<open>
  An attribute value is one of the SDK's \<^verbatim>\<open>types.AttributeValueMember*\<close>. The handlers
  build and test for \<^verbatim>\<open>S\<close> (string) and \<^verbatim>\<open>N\<close> (number, kept as its decimal string);
  on every other member their type assertions fail, as on \<^verbatim>\<open>BOOL\<close> and \<^verbatim>\<open>NULL\<close> here.
\<close>

datatype AttributeValue =
    AttributeValueMemberS string
  | AttributeValueMemberN string
  | AttributeValueMemberBOOL bool
  | AttributeValueMemberNULL bool

type_synonym Item = "string \<rightharpoonup> AttributeValue"

text \<open>The store: for each table name, the items by the value of their key \<^verbatim>\<open>deviceId\<close>.\<close>

type_synonym DDB = "string \<Rightarrow> string \<rightharpoonup> Item"

text \<open>
  Each call to the store either succeeds or returns an error; which, is decided outside
  the program, so every call takes its outcome as an argument: \<^const>\<open>None\<close> for
  success, \<open>Some msg\<close> for an error whose \<^verbatim>\<open>Error()\<close> is \<open>msg\<close>. A call that returns an
  error leaves the table as it was.
\<close>

definition GetItem :: "string option \<Rightarrow> string \<Rightarrow> string \<Rightarrow> DDB \<Rightarrow> string + Item option" where
  "GetItem outcome tbl key db =
     (case outcome of Some e \<Rightarrow> Inl e | None \<Rightarrow> Inr (db tbl key))"

text \<open>
  \<^verbatim>\<open>PutItem\<close> replaces the whole item stored under the item's key, attributes the
  new item does not name included. The store rejects an item that lacks its string key.
\<close>

definition PutItem :: "string option \<Rightarrow> string \<Rightarrow> Item \<Rightarrow> DDB \<Rightarrow> string option \<times> DDB" where
  "PutItem outcome tbl item db =
     (case outcome of
        Some e \<Rightarrow> (Some e, db)
      | None \<Rightarrow>
          (case item ''deviceId'' of
             Some (AttributeValueMemberS key) \<Rightarrow> (None, db(tbl := (db tbl)(key \<mapsto> item)))
           | _ \<Rightarrow> (Some ''ValidationException'', db)))"

text \<open>
  \<^verbatim>\<open>UpdateItem\<close> with the update expression \<^verbatim>\<open>SET servedAt = :now\<close> and no condition
  expression: the attribute is set on the item under the key, and an item holding only
  the key is created first when there is none.
\<close>

definition UpdateItem_SET_servedAt ::
    "string option \<Rightarrow> string \<Rightarrow> string \<Rightarrow> AttributeValue \<Rightarrow> DDB \<Rightarrow> string option \<times> DDB" where
  "UpdateItem_SET_servedAt outcome tbl key v db =
     (case outcome of
        Some e \<Rightarrow> (Some e, db)
      | None \<Rightarrow>
          let item = (case db tbl key of
                        None \<Rightarrow> [''deviceId'' \<mapsto> AttributeValueMemberS key]
                      | Some it \<Rightarrow> it)
          in (None, db(tbl := (db tbl)(key \<mapsto> item(''servedAt'' \<mapsto> v)))))"

record Server =
  table :: string
  sharedSecret :: string

text \<open>
  \<^verbatim>\<open>events.APIGatewayProxyRequest\<close>, as far as the handlers read it. Indexing the
  parameter map gives the empty string for a missing parameter.
\<close>

record 'b APIGatewayProxyRequest =
  QueryStringParameters :: "string \<rightharpoonup> string"
  Unmarshalled :: "'b option"

text \<open>
  \<open>Unmarshalled\<close> is what \<^verbatim>\<open>json.Unmarshal([]byte(req.Body), &v)\<close> makes of the body:
  \<^const>\<open>None\<close> when it returns an error, the decoded struct otherwise.
\<close>

definition unauthorized :: "Server \<Rightarrow> string \<Rightarrow> bool" where
  "unauthorized s token \<longleftrightarrow>
     token = [] \<or> sharedSecret s = [] \<or> \<not> timingSafeEq token (sharedSecret s)"

definition errorBody :: "string \<Rightarrow> json" where
  "errorBody msg = JObj [(''error'', JStr msg)]"

subsection \<open>src/laundryStart/main.go\<close>

text \<open>
  The four Lambda packages each declare their own structs. Field names are prefixed here
  where two packages use the same one: \<open>start\<close> for laundryStart's \<^verbatim>\<open>Command\<close>,
  \<open>latest\<close> for laundryLatest's, \<open>stats\<close> for \<^verbatim>\<open>Stats\<close>.
\<close>

record StartCommand =
  startDeviceID :: string
  startType :: string
  startDurationMinutes :: int64
  startToken :: string

definition laundryStart_handler ::
    "Server \<Rightarrow> int64 \<Rightarrow> string option \<Rightarrow> StartCommand APIGatewayProxyRequest \<Rightarrow> DDB
       \<Rightarrow> Response \<times> DDB" where
  "laundryStart_handler s now putOutcome req db =
     (case Unmarshalled req of
        None \<Rightarrow> (resp 400 (errorBody ''invalid json''), db)
      | Some cmd0 \<Rightarrow>
          let cmd = cmd0\<lparr>startDeviceID := TrimSpace (startDeviceID cmd0)\<rparr> in
            if unauthorized s (startToken cmd) then (resp 401 (errorBody ''unauthorized''), db)
            else if startDeviceID cmd = [] then (resp 400 (errorBody ''deviceId required''), db)
            else if startType cmd \<noteq> ''wash'' \<and> startType cmd \<noteq> ''dry''
              then (resp 400 (errorBody ''type must be wash or dry''), db)
            else if sint (startDurationMinutes cmd) \<le> 0
              then (resp 400 (errorBody ''durationMinutes must be > 0''), db)
            else
              let durationStr = Itoa (startDurationMinutes cmd);
                  createdAtStr = FormatInt now
              in (case PutItem putOutcome (table s)
                         [''deviceId'' \<mapsto> AttributeValueMemberS (startDeviceID cmd),
                          ''type'' \<mapsto> AttributeValueMemberS (startType cmd),
                          ''durationMinutes'' \<mapsto> AttributeValueMemberN durationStr,
                          ''createdAt'' \<mapsto> AttributeValueMemberN createdAtStr] db of
                    (Some e, db') \<Rightarrow>
                      (resp 500 (JObj [(''error'', JStr e), (''table'', JStr (table s))]), db')
                  | (None, db') \<Rightarrow>
                      (resp 200 (JObj [(''createdAt'', JInt (sint now)), (''ok'', JBool True)]), db')))"

subsection \<open>src/laundryLatest/main.go\<close>

record LatestCommand =
  latestDeviceID :: string
  latestType :: string
  latestDurationMinutes :: int64
  latestCreatedAt :: int64

definition jsonLatestCommand :: "LatestCommand \<Rightarrow> json" where
  "jsonLatestCommand c =
     JObj [(''deviceId'', JStr (latestDeviceID c)),
           (''type'', JStr (latestType c)),
           (''durationMinutes'', JInt (sint (latestDurationMinutes c))),
           (''createdAt'', JInt (sint (latestCreatedAt c)))]"

text \<open>
  \<^verbatim>\<open>mustInt64\<close>. \<^verbatim>\<open>range s\<close> yields runes; a rune is an ASCII digit exactly when the
  byte it starts at is one (every byte of a longer or invalid sequence is 0x80 or more),
  so the loop stops at the first byte outside \<^verbatim>\<open>'0'..'9'\<close>. The accumulator is an
  \<^verbatim>\<open>int64\<close>: \<open>n * 10 + d\<close> wraps.
\<close>

fun mustInt64_loop :: "int64 \<Rightarrow> string \<Rightarrow> int64" where
  "mustInt64_loop n [] = n"
| "mustInt64_loop n (c # cs) =
     (if c < CHR ''0'' \<or> c > CHR ''9'' then n
      else mustInt64_loop (n * 10 + (of_char c - of_char CHR ''0'')) cs)"

definition mustInt64 :: "string \<Rightarrow> int64" where
  "mustInt64 s = mustInt64_loop 0 s"

text \<open>
  The handler makes two calls to the store, a read and, when the read found a command
  not yet served, a write. \<open>laundryLatest_read\<close> is the handler up to the point where the
  command is decoded (source lines 55 to 94), \<open>laundryLatest_mark\<close> the rest (lines 96
  to 109): the handler is the first followed by the second, and another invocation's calls
  to the store can fall between the two.
\<close>

datatype LatestProgress = Return Response | Deliver LatestCommand

definition IndexParam :: "(string \<rightharpoonup> string) \<Rightarrow> string \<Rightarrow> string" where
  "IndexParam q k = (case q k of None \<Rightarrow> [] | Some v \<Rightarrow> v)"

definition laundryLatest_read ::
    "Server \<Rightarrow> string option \<Rightarrow> 'b APIGatewayProxyRequest \<Rightarrow> DDB \<Rightarrow> LatestProgress" where
  "laundryLatest_read s getOutcome req db =
     (let deviceID = TrimSpace (IndexParam (QueryStringParameters req) ''deviceId'');
          token = IndexParam (QueryStringParameters req) ''token''
      in
        if deviceID = [] then Return (resp 400 (errorBody ''deviceId required''))
        else if unauthorized s token then Return (resp 401 (errorBody ''unauthorized''))
        else case GetItem getOutcome (table s) deviceID db of
          Inl err \<Rightarrow> Return (resp 500 (errorBody ''get failed''))
        | Inr None \<Rightarrow> Return (resp 200 (jsonLatestResponse None))
        | Inr (Some item) \<Rightarrow>
            if item ''servedAt'' \<noteq> None then Return (resp 200 (jsonLatestResponse None))
            else Deliver
              \<lparr>latestDeviceID = deviceID,
               latestType = (case item ''type'' of
                               Some (AttributeValueMemberS v) \<Rightarrow> v | _ \<Rightarrow> []),
               latestDurationMinutes = (case item ''durationMinutes'' of
                               Some (AttributeValueMemberN v) \<Rightarrow> mustInt64 v | _ \<Rightarrow> 0),
               latestCreatedAt = (case item ''createdAt'' of
                               Some (AttributeValueMemberN v) \<Rightarrow> mustInt64 v | _ \<Rightarrow> 0)\<rparr>)"

definition laundryLatest_mark ::
    "Server \<Rightarrow> int64 \<Rightarrow> string option \<Rightarrow> LatestCommand \<Rightarrow> DDB \<Rightarrow> Response \<times> DDB" where
  "laundryLatest_mark s now updOutcome cmd db =
     (let (ignored, db') =
            UpdateItem_SET_servedAt updOutcome (table s) (latestDeviceID cmd)
              (AttributeValueMemberN (FormatInt now)) db
      in (resp 200 (jsonLatestResponse (Some (jsonLatestCommand cmd))), db'))"

definition laundryLatest_handler ::
    "Server \<Rightarrow> int64 \<Rightarrow> string option \<Rightarrow> string option \<Rightarrow> 'b APIGatewayProxyRequest \<Rightarrow> DDB
       \<Rightarrow> Response \<times> DDB" where
  "laundryLatest_handler s now getOutcome updOutcome req db =
     (case laundryLatest_read s getOutcome req db of
        Return r \<Rightarrow> (r, db)
      | Deliver cmd \<Rightarrow> laundryLatest_mark s now updOutcome cmd db)"

subsection \<open>src/laundryUpdateStats/main.go and src/laundryGetStats/main.go\<close>

record Stats =
  statsDeviceID :: string
  TotalSpent :: float64
  NumRuns :: int64
  statsToken :: string

definition jsonStats :: "Stats \<Rightarrow> json" where
  "jsonStats st =
     JObj ([(''deviceId'', JStr (statsDeviceID st)),
            (''totalSpent'', JFloat (TotalSpent st)),
            (''numRuns'', JInt (sint (NumRuns st)))]
           @ (if statsToken st = [] then [] else [(''token'', JStr (statsToken st))]))"

text \<open>\<open>FormatFloat2 x\<close> stands for \<^verbatim>\<open>strconv.FormatFloat(x, 'f', 2, 64)\<close>.\<close>

definition laundryUpdateStats_handler ::
    "(float64 \<Rightarrow> string) \<Rightarrow> Server \<Rightarrow> int64 \<Rightarrow> string option \<Rightarrow> Stats APIGatewayProxyRequest
       \<Rightarrow> DDB \<Rightarrow> Response \<times> DDB" where
  "laundryUpdateStats_handler FormatFloat2 s now putOutcome req db =
     (case Unmarshalled req of
        None \<Rightarrow> (resp 400 (errorBody ''invalid json''), db)
      | Some stats0 \<Rightarrow>
          let stats = stats0\<lparr>statsDeviceID := TrimSpace (statsDeviceID stats0)\<rparr> in
            if unauthorized s (statsToken stats) then (resp 401 (errorBody ''unauthorized''), db)
            else if statsDeviceID stats = [] then (resp 400 (errorBody ''deviceId required''), db)
            else
              let totalSpentStr = FormatFloat2 (TotalSpent stats);
                  numRunsStr = FormatInt (NumRuns stats);
                  updatedAtStr = FormatInt now
              in (case PutItem putOutcome (table s)
                         [''deviceId'' \<mapsto> AttributeValueMemberS (statsDeviceID stats),
                          ''totalSpent'' \<mapsto> AttributeValueMemberN totalSpentStr,
                          ''numRuns'' \<mapsto> AttributeValueMemberN numRunsStr,
                          ''updatedAt'' \<mapsto> AttributeValueMemberN updatedAtStr] db of
                    (Some e, db') \<Rightarrow>
                      (resp 500 (JObj [(''error'', JStr e), (''table'', JStr (table s))]), db')
                  | (None, db') \<Rightarrow>
                      (resp 200 (JObj [(''lastUpdatedAt'', JStr updatedAtStr), (''ok'', JBool True)]),
                       db')))"

text \<open>
  \<open>ParseFloat v\<close> stands for \<^verbatim>\<open>strconv.ParseFloat(v, 64)\<close>: \<^const>\<open>None\<close> when it
  returns an error (the handler then answers 500 whatever the value).
\<close>

definition laundryGetStats_handler ::
    "(string \<Rightarrow> float64 option) \<Rightarrow> Server \<Rightarrow> string option \<Rightarrow> 'b APIGatewayProxyRequest \<Rightarrow> DDB
       \<Rightarrow> Response \<times> DDB" where
  "laundryGetStats_handler ParseFloat s getOutcome req db =
     (let deviceID = TrimSpace (IndexParam (QueryStringParameters req) ''deviceId'');
          token = IndexParam (QueryStringParameters req) ''token''
      in
        if deviceID = [] then (resp 400 (errorBody ''deviceId required''), db)
        else if unauthorized s token then (resp 401 (errorBody ''unauthorized''), db)
        else case GetItem getOutcome (table s) deviceID db of
          Inl err \<Rightarrow> (resp 500 (errorBody ''get failed''), db)
        | Inr None \<Rightarrow> (resp 404 (errorBody ''not found''), db)
        | Inr (Some item) \<Rightarrow>
            let stats = \<lparr>statsDeviceID = deviceID, TotalSpent = 0, NumRuns = 0, statsToken = []\<rparr>;
                total = (case item ''totalSpent'' of
                           Some (AttributeValueMemberN v) \<Rightarrow> ParseFloat v
                         | _ \<Rightarrow> Some (TotalSpent stats))
            in (case total of
                  None \<Rightarrow> (resp 500 (errorBody ''float conversion failed''), db)
                | Some f \<Rightarrow>
                    let runs = (case item ''numRuns'' of
                                  Some (AttributeValueMemberN v) \<Rightarrow> ParseInt v
                                | _ \<Rightarrow> Some (NumRuns stats))
                    in (case runs of
                          None \<Rightarrow> (resp 500 (errorBody ''int conversion failed''), db)
                        | Some n \<Rightarrow>
                            (resp 200 (jsonStats (stats\<lparr>TotalSpent := f, NumRuns := n\<rparr>)),
                             db))))"

section \<open>The handoff protocol: device states, traces and interleavings\<close>

text \<open>
  What a poll hands to the device: the command object of a 200 response, \<^const>\<open>None\<close>
  for \<^verbatim>\<open>{"command": null}\<close> and for every error response.
\<close>

definition delivered :: "Response \<Rightarrow> json option" where
  "delivered r =
     (if StatusCode r = 200 then
        (case Body r of
           JObj [(k, JObj fs)] \<Rightarrow> if k = ''command'' then Some (JObj fs) else None
         | _ \<Rightarrow> None)
      else None)"

text \<open>
  The state of one device's mailbox, read off the stored data. Volatile backend: no entry
  in \<^verbatim>\<open>latestByDevice\<close>; an entry whose \<^verbatim>\<open>CreatedAt\<close> the watermark
  \<^verbatim>\<open>lastServedAt\<close> has reached; an entry above the watermark. Durable backend: no item;
  an item with a \<^verbatim>\<open>servedAt\<close> attribute; an item without.
\<close>

definition vNoCommand :: "VState \<Rightarrow> string \<Rightarrow> bool" where
  "vNoCommand st d \<longleftrightarrow> latestByDevice st d = None"

definition vServed :: "VState \<Rightarrow> string \<Rightarrow> bool" where
  "vServed st d \<longleftrightarrow>
     (case latestByDevice st d of
        None \<Rightarrow> False
      | Some c \<Rightarrow> sint (CreatedAt c) \<le> sint (lookupInt64 (lastServedAt st) d))"

definition vPending :: "VState \<Rightarrow> string \<Rightarrow> bool" where
  "vPending st d \<longleftrightarrow>
     (case latestByDevice st d of
        None \<Rightarrow> False
      | Some c \<Rightarrow> sint (lookupInt64 (lastServedAt st) d) < sint (CreatedAt c))"

definition dNoCommand :: "DDB \<Rightarrow> string \<Rightarrow> string \<Rightarrow> bool" where
  "dNoCommand db tbl d \<longleftrightarrow> db tbl d = None"

definition dServed :: "DDB \<Rightarrow> string \<Rightarrow> string \<Rightarrow> bool" where
  "dServed db tbl d \<longleftrightarrow>
     (case db tbl d of None \<Rightarrow> False | Some item \<Rightarrow> item ''servedAt'' \<noteq> None)"

definition dPending :: "DDB \<Rightarrow> string \<Rightarrow> string \<Rightarrow> bool" where
  "dPending db tbl d \<longleftrightarrow>
     (case db tbl d of None \<Rightarrow> False | Some item \<Rightarrow> item ''servedAt'' = None)"

subsection \<open>Sequential traces\<close>

text \<open>
  A call carries what the handler reads from outside the program: the request, the clock
  and, in the durable backend, the outcome of each store call and the configuration of the
  Lambda that serves it.
\<close>

datatype VCall = VStart int64 HTTPRequest | VLatest HTTPRequest

fun vcall :: "string \<Rightarrow> VCall \<Rightarrow> VState \<Rightarrow> Response \<times> VState" where
  "vcall secret (VStart now r) st = startMachine secret now r st"
| "vcall secret (VLatest r) st = getLatest secret r st"

fun vrun :: "string \<Rightarrow> VCall list \<Rightarrow> VState \<Rightarrow> Response list \<times> VState" where
  "vrun secret [] st = ([], st)"
| "vrun secret (c # cs) st =
     (let (r, st1) = vcall secret c st;
          (rs, st2) = vrun secret cs st1
      in (r # rs, st2))"


datatype DCall =
    DStart Server int64 "string option" "StartCommand APIGatewayProxyRequest"
  | DLatest Server int64 "string option" "string option" "unit APIGatewayProxyRequest"


fun dcall :: "DCall \<Rightarrow> DDB \<Rightarrow> Response \<times> DDB" where
  "dcall (DStart s now putOutcome req) db = laundryStart_handler s now putOutcome req db"
| "dcall (DLatest s now getOutcome updOutcome req) db =
     laundryLatest_handler s now getOutcome updOutcome req db"

fun drun :: "DCall list \<Rightarrow> DDB \<Rightarrow> Response list \<times> DDB" where
  "drun [] db = ([], db)"
| "drun (c # cs) db =
     (let (r, db1) = dcall c db;
          (rs, db2) = drun cs db1
      in (r # rs, db2))"


subsection \<open>Concurrent polls\<close>


text \<open>
  Invocations that run at the same time are threads over the shared store; a schedule
  names, step by step, the thread that takes its next indivisible step. A thread is
  waiting to start, midway (with what it has computed so far), or finished with its
  response.
\<close>

datatype ('q, 'm) Thread = Waiting 'q | Midway 'm | Finished Response

fun interleave ::
    "(('q, 'm) Thread \<Rightarrow> 's \<Rightarrow> ('q, 'm) Thread \<times> 's) \<Rightarrow> nat list
       \<Rightarrow> ('q, 'm) Thread list \<times> 's \<Rightarrow> ('q, 'm) Thread list \<times> 's" where
  "interleave step [] cfg = cfg"
| "interleave step (i # sched) (ts, st) =
     (if i < length ts then
        (let (t', st') = step (ts ! i) st in interleave step sched (ts[i := t'], st'))
      else interleave step sched (ts, st))"

definition deliveries :: "('q, 'm) Thread list \<Rightarrow> nat" where
  "deliveries ts =
     length (filter (\<lambda>t. case t of Finished r \<Rightarrow> delivered r \<noteq> None | _ \<Rightarrow> False) ts)"

text \<open>
  Volatile backend: \<^verbatim>\<open>getLatest\<close> reads only its request and the start-up constant
  \<^verbatim>\<open>sharedSecret\<close> before \<^verbatim>\<open>mu.Lock()\<close>, and holds the mutex from there to its return;
  \<^verbatim>\<open>startMachine\<close> writes the map under the same mutex. So a poll is one step.
\<close>

definition vpollStep ::
    "string \<Rightarrow> (HTTPRequest, unit) Thread \<Rightarrow> VState \<Rightarrow> (HTTPRequest, unit) Thread \<times> VState" where
  "vpollStep secret t st =
     (case t of
        Waiting r \<Rightarrow> (let (rsp, st') = getLatest secret r st in (Finished rsp, st'))
      | _ \<Rightarrow> (t, st))"

text \<open>
  Durable backend: the store serialises single calls, nothing more. A poll is two steps,
  \<^verbatim>\<open>GetItem\<close> with the decoding that follows, then \<^verbatim>\<open>UpdateItem\<close>.
\<close>

record PollCall =
  pollNow :: int64
  pollGetOutcome :: "string option"
  pollUpdOutcome :: "string option"
  pollRequest :: "unit APIGatewayProxyRequest"

definition dpollStep ::
    "Server \<Rightarrow> (PollCall, PollCall \<times> LatestCommand) Thread \<Rightarrow> DDB
       \<Rightarrow> (PollCall, PollCall \<times> LatestCommand) Thread \<times> DDB" where
  "dpollStep s t db =
     (case t of
        Waiting c \<Rightarrow>
          (case laundryLatest_read s (pollGetOutcome c) (pollRequest c) db of
             Return r \<Rightarrow> (Finished r, db)
           | Deliver cmd \<Rightarrow> (Midway (c, cmd), db))
      | Midway (c, cmd) \<Rightarrow>
          (let (r, db') = laundryLatest_mark s (pollNow c) (pollUpdOutcome c) cmd db
           in (Finished r, db'))
      | Finished r \<Rightarrow> (t, db))"

section \<open>Requests and stored states for worked examples\<close>

text \<open>A poll of device \<open>k\<close> with a good token, whose read succeeds.\<close>

definition pollsDevice :: "Server \<Rightarrow> string \<Rightarrow> PollCall \<Rightarrow> bool" where
  "pollsDevice s k c \<longleftrightarrow>
     TrimSpace (IndexParam (QueryStringParameters (pollRequest c)) ''deviceId'') = k
     \<and> \<not> badToken (IndexParam (QueryStringParameters (pollRequest c)) ''token'') (sharedSecret s)
     \<and> pollGetOutcome c = None"

text \<open>Requests as a client sends them, and a few stored states.\<close>

definition exSecret :: string where
  "exSecret = ''s3cret''"

definition exState0 :: VState where
  "exState0 = \<lparr>latestByDevice = Map.empty, lastServedAt = Map.empty\<rparr>"

definition vPoll :: "string \<Rightarrow> string \<Rightarrow> HTTPRequest" where
  "vPoll d tok =
     \<lparr>Method = ''GET'', Query = [''deviceId'' \<mapsto> d, ''token'' \<mapsto> tok], Decoded = None\<rparr>"

definition vSubmit :: "string \<Rightarrow> string \<Rightarrow> int64 \<Rightarrow> string \<Rightarrow> HTTPRequest" where
  "vSubmit d ty dur tok =
     \<lparr>Method = ''POST'', Query = Map.empty,
      Decoded = Some \<lparr>DeviceID = d, Type = ty, DurationMinutes = dur, CreatedAt = 0, Token = tok\<rparr>\<rparr>"

definition exServer :: Server where
  "exServer = \<lparr>table = ''commands'', sharedSecret = ''s3cret''\<rparr>"

definition exDB0 :: DDB where
  "exDB0 = (\<lambda>tbl. Map.empty)"

definition dPoll :: "string \<Rightarrow> string \<Rightarrow> unit APIGatewayProxyRequest" where
  "dPoll d tok =
     \<lparr>QueryStringParameters = [''deviceId'' \<mapsto> d, ''token'' \<mapsto> tok], Unmarshalled = None\<rparr>"

definition dSubmit ::
    "string \<Rightarrow> string \<Rightarrow> int64 \<Rightarrow> string \<Rightarrow> StartCommand APIGatewayProxyRequest" where
  "dSubmit d ty dur tok =
     \<lparr>QueryStringParameters = Map.empty,
      Unmarshalled = Some \<lparr>startDeviceID = d, startType = ty, startDurationMinutes = dur,
                            startToken = tok\<rparr>\<rparr>"

definition dUpdateStats ::
    "string \<Rightarrow> float64 \<Rightarrow> int64 \<Rightarrow> string \<Rightarrow> Stats APIGatewayProxyRequest" where
  "dUpdateStats d spent runs tok =
     \<lparr>QueryStringParameters = Map.empty,
      Unmarshalled = Some \<lparr>statsDeviceID = d, TotalSpent = spent, NumRuns = runs,
                            statsToken = tok\<rparr>\<rparr>"

definition exPendingState :: VState where
  "exPendingState =
     \<lparr>latestByDevice = [''D1'' \<mapsto> \<lparr>DeviceID = ''D1'', Type = ''wash'', DurationMinutes = 30,
                                     CreatedAt = 1000, Token = []\<rparr>],
      lastServedAt = Map.empty\<rparr>"

definition exServedState :: VState where
  "exServedState =
     \<lparr>latestByDevice = [''D1'' \<mapsto> \<lparr>DeviceID = ''D1'', Type = ''wash'', DurationMinutes = 30,
                                     CreatedAt = 1000, Token = []\<rparr>],
      lastServedAt = [''D1'' \<mapsto> 1000]\<rparr>"

definition exItem :: "string \<Rightarrow> string \<Rightarrow> Item" where
  "exItem duration created =
     [''deviceId'' \<mapsto> AttributeValueMemberS ''D1'',
      ''type'' \<mapsto> AttributeValueMemberS ''wash'',
      ''durationMinutes'' \<mapsto> AttributeValueMemberN duration,
      ''createdAt'' \<mapsto> AttributeValueMemberN created]"

definition exPendingDB :: "string \<Rightarrow> string \<Rightarrow> DDB" where
  "exPendingDB duration created = exDB0(''commands'' := [''D1'' \<mapsto> exItem duration created])"

definition exServedDB :: DDB where
  "exServedDB =
     exDB0(''commands'' :=
       [''D1'' \<mapsto> (exItem ''30'' ''1000'')(''servedAt'' \<mapsto> AttributeValueMemberN ''1001'')])"

section \<open>Properties of the Go library functions\<close>

subsection \<open>The constant-time comparison decides equality of the byte strings\<close>

definition exPollCall :: "int64 \<Rightarrow> PollCall" where
  "exPollCall t =
     \<lparr>pollNow = t, pollGetOutcome = None, pollUpdOutcome = None,
      pollRequest = dPoll ''D1'' ''s3cret''\<rparr>"

lemma of_char_word8_eq_iff: "(of_char x :: 8 word) = of_char y \<longleftrightarrow> x = y"
proof
  assume h: "(of_char x :: 8 word) = of_char y"
  have "(of_nat (of_char x) :: 8 word) = of_nat (of_char y)"
    using h by (simp add: of_nat_of_char)
  then have "take_bit 8 (of_char x :: nat) = take_bit 8 (of_char y :: nat)"
    by (simp add: word_of_nat_eq_iff)
  then have "(of_char x :: nat) = of_char y"
    by (simp add: take_bit_eq_mod)
  then show "x = y" by simp
qed simp

lemma xor_word8_zero_iff: "(a :: 8 word) XOR b = 0 \<longleftrightarrow> a = b"
  by (metis bit.xor_left_self xor.right_neutral)

lemma ctAccum_zero_iff:
  "length xs = length ys \<Longrightarrow> ctAccum v xs ys = 0 \<longleftrightarrow> v = 0 \<and> xs = ys"
proof (induction v xs ys rule: ctAccum.induct)
  case (1 v x xs y ys)
  then show ?case
    by (auto simp: or_eq_0_iff xor_word8_zero_iff of_char_word8_eq_iff)
qed auto

lemma timingSafeEq_iff: "timingSafeEq a b \<longleftrightarrow> a = b"
  by (auto simp: timingSafeEq_def ConstantTimeCompare_def ctAccum_zero_iff)

subsection \<open>Trimming\<close>

lemma TrimLeftSpace_Nil: "TrimLeftSpace [] = []"
  by (subst TrimLeftSpace.simps) simp

lemma TrimRightSpaceRev_Nil: "TrimRightSpaceRev [] = []"
  by (subst TrimRightSpaceRev.simps) simp

lemma TrimSpace_Nil: "TrimSpace [] = []"
  by (simp add: TrimSpace_def TrimRightSpace_def TrimLeftSpace_Nil TrimRightSpaceRev_Nil)

lemma spaceWidth_ascii: "asciiSpace a \<Longrightarrow> spaceWidth (a # s) = 1"
  by (cases "a # s" rule: spaceWidth.cases) auto

lemma TrimLeftSpace_ascii: "list_all asciiSpace s \<Longrightarrow> TrimLeftSpace s = []"
proof (induction s)
  case Nil
  show ?case by (rule TrimLeftSpace_Nil)
next
  case (Cons a s)
  then have "spaceWidth (a # s) = 1" by (simp add: spaceWidth_ascii)
  then have "TrimLeftSpace (a # s) = TrimLeftSpace s"
    by (subst TrimLeftSpace.simps) simp
  with Cons show ?case by simp
qed

text \<open>A string of ASCII white space only is trimmed to the empty string.\<close>

lemma TrimSpace_ascii_spaces: "list_all asciiSpace s \<Longrightarrow> TrimSpace s = []"
  by (simp add: TrimSpace_def TrimRightSpace_def TrimLeftSpace_ascii TrimRightSpaceRev_Nil)

text \<open>A string with no space rune at either end is left as it is.\<close>

lemma TrimSpace_id:
  "spaceWidth s = 0 \<Longrightarrow> spaceWidthLast (rev s) = 0 \<Longrightarrow> TrimSpace s = s"
  by (simp add: TrimSpace_def TrimRightSpace_def TrimLeftSpace.simps [of s]
      TrimRightSpaceRev.simps [of "rev s"])

subsection \<open>The handlers' definitions, for unfolding\<close>

lemmas handler_defs = startMachine_def getLatest_def laundryStart_handler_def
  laundryLatest_handler_def laundryLatest_read_def laundryLatest_mark_def
  laundryUpdateStats_handler_def laundryGetStats_handler_def

lemmas resp_defs = resp_def writeJSON_def writeErr_def errorBody_def

subsection \<open>Decimal conversions\<close>

lemma of_char_digitChar: "d < 10 \<Longrightarrow> (of_char (digitChar d) :: nat) = 48 + d"
proof -
  assume "d < 10"
  then have "d \<in> {0, 1, 2, 3, 4, 5, 6, 7, 8, 9}" by auto
  then show ?thesis by (auto simp: digitChar_def)
qed

lemma isDigit_iff: "isDigit c \<longleftrightarrow> 48 \<le> (of_char c :: nat) \<and> (of_char c :: nat) \<le> 57"
  by (simp add: isDigit_def less_eq_char_def)

lemma isDigit_digitChar: "d < 10 \<Longrightarrow> isDigit (digitChar d)"
  by (simp add: isDigit_iff of_char_digitChar)

lemma digitsOf_digits: "list_all isDigit (digitsOf n)"
  by (induction n rule: digitsOf.induct) (subst digitsOf.simps, simp add: isDigit_digitChar)

lemma digitsOf_nonempty: "digitsOf n \<noteq> []"
  by (subst digitsOf.simps) simp

lemma natOfDigits_snoc: "natOfDigits a (xs @ [c]) = natOfDigits a xs * 10 + (of_char c - 48)"
  by (induction xs arbitrary: a) simp_all

lemma natOfDigits_digitsOf: "natOfDigits 0 (digitsOf n) = n"
proof (induction n rule: digitsOf.induct)
  case (1 n)
  show ?case
  proof (cases "n < 10")
    case True
    then show ?thesis by (subst digitsOf.simps) (simp add: of_char_digitChar)
  next
    case False
    then have "natOfDigits 0 (digitsOf (n div 10)) = n div 10" using 1 by simp
    with False show ?thesis
      by (subst digitsOf.simps) (simp add: natOfDigits_snoc of_char_digitChar)
  qed
qed

lemma not_digit_iff: "(c < CHR ''0'' \<or> c > CHR ''9'') \<longleftrightarrow> \<not> isDigit c"
  by (auto simp: isDigit_def)

lemma digit_word:
  assumes "isDigit c"
  shows "(of_char c :: int64) - of_char CHR ''0'' = word_of_nat (of_char c - 48)"
proof -
  have "48 \<le> (of_char c :: nat)" using assms by (simp add: isDigit_iff)
  then have "(word_of_nat (of_char c - 48) :: int64) = word_of_nat (of_char c) - 48"
    by (simp add: of_nat_diff)
  then show ?thesis by (simp add: of_nat_of_char)
qed

lemma mustInt64_loop_eq:
  "mustInt64_loop (word_of_nat n) s = word_of_nat (natOfDigits n (takeWhile isDigit s))"
proof (induction s arbitrary: n)
  case Nil
  then show ?case by simp
next
  case (Cons c s)
  show ?case
  proof (cases "isDigit c")
    case True
    have nd: "\<not> (c < CHR ''0'' \<or> c > CHR ''9'')"
      using True by (simp add: not_digit_iff)
    have step: "word_of_nat n * 10 + ((of_char c :: int64) - of_char CHR ''0'')
        = word_of_nat (n * 10 + (of_char c - 48))"
      by (simp only: digit_word [OF True]) simp
    have "mustInt64_loop (word_of_nat n) (c # s)
        = mustInt64_loop (word_of_nat n * 10 + (of_char c - of_char CHR ''0'')) s"
      by (simp only: mustInt64_loop.simps nd if_False)
    also have "\<dots> = mustInt64_loop (word_of_nat (n * 10 + (of_char c - 48))) s"
      by (simp only: step)
    also have "\<dots> = word_of_nat (natOfDigits (n * 10 + (of_char c - 48)) (takeWhile isDigit s))"
      by (rule Cons.IH)
    finally show ?thesis using True by simp
  next
    case False
    then show ?thesis by (simp add: not_digit_iff)
  qed
qed

lemma mustInt64_eq: "mustInt64 s = word_of_nat (natOfDigits 0 (takeWhile isDigit s))"
  using mustInt64_loop_eq [of 0 s] by (simp add: mustInt64_def)



lemma hd_digitsOf: "isDigit (hd (digitsOf n))"
  using digitsOf_digits [of n] digitsOf_nonempty [of n]
  by (cases "digitsOf n") simp_all

lemma ParseInt_FormatInt: "ParseInt (FormatInt i) = Some i"
proof (cases "sint i < 0")
  case True
  have b: "nat (- sint i) \<le> 2 ^ 63"
    using sint_ge [of i] by simp
  have "- (word_of_nat (nat (- sint i)) :: int64) = i"
    using True by simp
  with True b show ?thesis
    by (simp add: ParseInt_def FormatInt_def digitsOf_digits digitsOf_nonempty natOfDigits_digitsOf Let_def)
next
  case False
  have b: "nat (sint i) < 2 ^ 63"
    using sint_lt [of i] False by simp
  have h: "hd (digitsOf (nat (sint i))) \<noteq> CHR ''+'' \<and> hd (digitsOf (nat (sint i))) \<noteq> CHR ''-''"
    using hd_digitsOf [of "nat (sint i)"] by (auto simp: isDigit_def)
  have "(word_of_nat (nat (sint i)) :: int64) = i"
    using False by simp
  with False b h show ?thesis
    by (simp add: ParseInt_def FormatInt_def digitsOf_digits digitsOf_nonempty natOfDigits_digitsOf Let_def)
qed

subsection \<open>Signed reading of a small natural number\<close>

lemma sint_word_of_nat_small:
  assumes "n < 2 ^ 63"
  shows "sint (word_of_nat n :: int64) = int n"
proof -
  have lt: "int n < 2 ^ 63" using assms by (simp add: of_nat_less_numeral_power_cancel_iff)
  have "sint (word_of_nat n :: int64) = (int n + 2 ^ 63) mod 2 ^ 64 - 2 ^ 63"
    using int_word_sint [where x = "int n" and ?'a = 64] by simp
  also have "(int n + 2 ^ 63) mod 2 ^ 64 = int n + 2 ^ 63"
    using lt by simp
  finally show ?thesis by simp
qed

subsection \<open>The token checks\<close>

lemma unauthorized_iff: "unauthorized s token \<longleftrightarrow> badToken token (sharedSecret s)"
  by (simp add: unauthorized_def badToken_def timingSafeEq_iff)

lemma volatile_check_iff:
  "(token = [] \<or> \<not> timingSafeEq token secret) \<longleftrightarrow> badToken token secret"
  by (auto simp: badToken_def timingSafeEq_iff)

subsection \<open>Unfolding for evaluation on concrete inputs\<close>

lemmas example_defs = exSecret_def exState0_def vPoll_def vSubmit_def exServer_def exDB0_def
  dPoll_def dSubmit_def dUpdateStats_def exPendingState_def exServedState_def exItem_def
  exPendingDB_def exServedDB_def

lemmas eval_defs = handler_defs resp_defs Let_def QueryGet_def IndexParam_def timingSafeEq_iff
  unauthorized_def badToken_def GetItem_def PutItem_def UpdateItem_SET_servedAt_def
  TrimSpace_def TrimRightSpace_def TrimLeftSpace.simps TrimRightSpaceRev.simps
  asciiSpace_def space2_def space3_def lookupInt64_def

lemmas run_defs = eval_defs delivered_def jsonLatestResponse_def jsonCommand_def
  jsonLatestCommand_def FormatInt_def Itoa_def digitsOf.simps digitChar_def mustInt64_def

section \<open>The volatile backend, step by step\<close>

lemma delivered_writeErr: "delivered (writeErr status msg) = None"
  by (simp add: delivered_def resp_defs)

lemma delivered_null: "delivered (writeJSON 200 (jsonLatestResponse None)) = None"
  by (simp add: delivered_def resp_defs jsonLatestResponse_def)

lemma delivered_command:
  "delivered (writeJSON 200 (jsonLatestResponse (Some (jsonCommand c)))) = Some (jsonCommand c)"
  by (simp add: delivered_def resp_defs jsonLatestResponse_def jsonCommand_def)

text \<open>What a poll does, by the state of the device it names.\<close>

lemma getLatest_served:
  "vServed st (QueryGet (Query r) ''deviceId'') \<Longrightarrow>
   snd (getLatest secret r st) = st \<and> delivered (fst (getLatest secret r st)) = None"
  by (auto simp: getLatest_def Let_def vServed_def delivered_writeErr delivered_null
      split: option.splits)

lemma getLatest_delivers_stored:
  assumes "delivered (fst (getLatest secret r st)) = Some j"
  shows "\<exists>cmd. latestByDevice st (QueryGet (Query r) ''deviceId'') = Some cmd
           \<and> j = jsonCommand cmd
           \<and> vPending st (QueryGet (Query r) ''deviceId'')
           \<and> vServed (snd (getLatest secret r st)) (QueryGet (Query r) ''deviceId'')"
  using assms
  by (auto simp: getLatest_def Let_def vServed_def vPending_def lookupInt64_def
      delivered_writeErr delivered_null delivered_command
      split: option.splits if_splits)












section \<open>The durable backend, step by step\<close>


lemma delivered_resp_null: "delivered (resp 200 (jsonLatestResponse None)) = None"
  by (simp add: delivered_def resp_defs jsonLatestResponse_def)

lemma delivered_latest_command:
  "delivered (resp 200 (jsonLatestResponse (Some (jsonLatestCommand c)))) = Some (jsonLatestCommand c)"
  by (simp add: delivered_def resp_defs jsonLatestResponse_def jsonLatestCommand_def)













subsection \<open>A stats record read back after it was written\<close>

text \<open>
  The float conversions are parameters: the lemma says that the record read is the one
  written, the run count exactly and the amount as \<open>parseFloat\<close> reads what
  \<open>formatFloat\<close> wrote.
\<close>

lemma stats_roundtrip:
  assumes "StatusCode (fst (laundryUpdateStats_handler formatFloat s now putOutcome q db)) = 200"
    and "Unmarshalled q = Some st"
    and "parseFloat (formatFloat (TotalSpent st)) = Some f"
    and "table s' = table s"
    and "TrimSpace (IndexParam (QueryStringParameters q') ''deviceId'') = TrimSpace (statsDeviceID st)"
    and "\<not> badToken (IndexParam (QueryStringParameters q') ''token'') (sharedSecret s')"
  shows "fst (laundryGetStats_handler parseFloat s' None q'
            (snd (laundryUpdateStats_handler formatFloat s now putOutcome q db)))
         = resp 200 (JObj [(''deviceId'', JStr (TrimSpace (statsDeviceID st))),
                           (''totalSpent'', JFloat f),
                           (''numRuns'', JInt (sint (NumRuns st)))])"
  using assms
  by (auto simp: laundryUpdateStats_handler_def laundryGetStats_handler_def Let_def PutItem_def
      GetItem_def unauthorized_iff resp_defs jsonStats_def ParseInt_FormatInt
      split: option.splits if_splits)

section \<open>Interleaved polls\<close>

lemma length_filter_update:
  "i < length ts \<Longrightarrow> \<not> P (ts ! i) \<Longrightarrow>
   length (filter P (ts[i := x])) = length (filter P ts) + (if P x then 1 else 0)"
proof (induction ts arbitrary: i)
  case Nil
  then show ?case by simp
next
  case (Cons t ts)
  then show ?case by (cases i) auto
qed

lemma deliveries_finish:
  assumes "i < length ts" and "ts ! i = Waiting r"
  shows "deliveries (ts[i := Finished rsp]) =
           deliveries ts + (if delivered rsp \<noteq> None then 1 else 0)"
  using assms unfolding deliveries_def
  by (subst length_filter_update) auto

lemma waiting_after_finish:
  assumes "\<forall>t\<in>set ts. \<forall>r. t = Waiting r \<longrightarrow> P r"
  shows "\<forall>t\<in>set (ts[i := Finished rsp]). \<forall>r. t = Waiting r \<longrightarrow> P r"
proof
  fix t assume "t \<in> set (ts[i := Finished rsp])"
  then have "t \<in> insert (Finished rsp) (set ts)"
    using set_update_subset_insert [of ts i "Finished rsp"] by blast
  then show "\<forall>r. t = Waiting r \<longrightarrow> P r" using assms by auto
qed

lemma volatile_interleaving_once:
  assumes "\<forall>t\<in>set ts. \<forall>r. t = Waiting r \<longrightarrow> QueryGet (Query r) ''deviceId'' = d"
    and "deliveries ts = 0 \<or> (deliveries ts = 1 \<and> vServed st d)"
  shows "deliveries (fst (interleave (vpollStep secret) sched (ts, st))) \<le> 1"
  using assms
proof (induction sched arbitrary: ts st)
  case Nil
  then show ?case by auto
next
  case (Cons i sched)
  show ?case
  proof (cases "i < length ts")
    case False
    then show ?thesis using Cons by simp
  next
    case True
    show ?thesis
    proof (cases "ts ! i")
      case (Waiting r)
      let ?rsp = "fst (getLatest secret r st)"
      let ?st' = "snd (getLatest secret r st)"
      let ?ts' = "ts[i := Finished ?rsp]"
      have dev: "QueryGet (Query r) ''deviceId'' = d"
        using Cons.prems(1) True Waiting nth_mem [of i ts] by auto
      have step: "interleave (vpollStep secret) (i # sched) (ts, st)
                = interleave (vpollStep secret) sched (?ts', ?st')"
        using True Waiting by (simp add: vpollStep_def split_beta)
      have w: "\<forall>t\<in>set ?ts'. \<forall>r. t = Waiting r \<longrightarrow> QueryGet (Query r) ''deviceId'' = d"
        using Cons.prems(1) by (rule waiting_after_finish)
      have cnt: "deliveries ?ts' = deliveries ts + (if delivered ?rsp \<noteq> None then 1 else 0)"
        using True Waiting by (rule deliveries_finish)
      have inv: "deliveries ?ts' = 0 \<or> (deliveries ?ts' = 1 \<and> vServed ?st' d)"
      proof (cases "vServed st d")
        case True
        then have "?st' = st" and "delivered ?rsp = None"
          using getLatest_served [of st r secret] dev by auto
        then show ?thesis using cnt Cons.prems(2) by auto
      next
        case False
        then have zero: "deliveries ts = 0" using Cons.prems(2) by auto
        show ?thesis
        proof (cases "delivered ?rsp")
          case None
          then show ?thesis using cnt zero by simp
        next
          case (Some j)
          then have "vServed ?st' d"
            using getLatest_delivers_stored [of secret r st j] dev by auto
          then show ?thesis using cnt zero Some by simp
        qed
      qed
      show ?thesis using Cons.IH [OF w inv] step by simp
    next
      case (Midway m)
      have same: "ts[i := Midway m] = ts"
        using Midway list_update_id [of ts i] by simp
      have "interleave (vpollStep secret) (i # sched) (ts, st)
                = interleave (vpollStep secret) sched (ts, st)"
        using True Midway same by (simp add: vpollStep_def)
      then show ?thesis using Cons by simp
    next
      case (Finished rsp)
      have same: "ts[i := Finished rsp] = ts"
        using Finished list_update_id [of ts i] by simp
      have "interleave (vpollStep secret) (i # sched) (ts, st)
                = interleave (vpollStep secret) sched (ts, st)"
        using True Finished same by (simp add: vpollStep_def)
      then show ?thesis using Cons by simp
    qed
  qed
qed

lemma volatile_concurrent_polls:
  assumes "list_all (\<lambda>r. QueryGet (Query r) ''deviceId'' = d) rs"
  shows "deliveries (fst (interleave (vpollStep secret) sched (map Waiting rs, st))) \<le> 1"
proof (rule volatile_interleaving_once)
  show "\<forall>t\<in>set (map Waiting rs). \<forall>r. t = Waiting r \<longrightarrow> QueryGet (Query r) ''deviceId'' = d"
    using assms by (auto simp: list_all_iff)
  have "deliveries (map Waiting rs :: (HTTPRequest, unit) Thread list) = 0"
    by (simp add: deliveries_def filter_empty_conv)
  then show "deliveries (map Waiting rs :: (HTTPRequest, unit) Thread list) = 0
      \<or> (deliveries (map Waiting rs :: (HTTPRequest, unit) Thread list) = 1 \<and> vServed st d)"
    by simp
qed

lemma read_pending:
  assumes "pollsDevice s k c" and "k \<noteq> []" and "db (table s) k = Some item"
    and "item ''servedAt'' = None"
  shows "\<exists>cmd. laundryLatest_read s (pollGetOutcome c) (pollRequest c) db = Deliver cmd
               \<and> latestDeviceID cmd = k"
  using assms
  by (auto simp: pollsDevice_def laundryLatest_read_def Let_def unauthorized_iff GetItem_def)

lemma read_served:
  assumes "pollsDevice s k c" and "k \<noteq> []" and "db (table s) k = Some item"
    and "item ''servedAt'' \<noteq> None"
  shows "laundryLatest_read s (pollGetOutcome c) (pollRequest c) db
           = Return (resp 200 (jsonLatestResponse None))"
  using assms
  by (auto simp: pollsDevice_def laundryLatest_read_def Let_def unauthorized_iff GetItem_def)

lemma mark_delivers:
  "delivered (fst (laundryLatest_mark s now updOutcome cmd db)) = Some (jsonLatestCommand cmd)"
  by (simp add: laundryLatest_mark_def split_beta delivered_latest_command)

lemma mark_ok_serves:
  "\<exists>item. snd (laundryLatest_mark s now None cmd db) (table s) (latestDeviceID cmd) = Some item
          \<and> item ''servedAt'' \<noteq> None"
  by (simp add: laundryLatest_mark_def UpdateItem_SET_servedAt_def Let_def)

lemma durable_race:
  assumes "dPending db (table s) k" and "k \<noteq> []" and "pollsDevice s k c1" and "pollsDevice s k c2"
  shows "deliveries (fst (interleave (dpollStep s) [0, 1, 0, 1] ([Waiting c1, Waiting c2], db))) = 2"
proof -
  from assms(1) obtain item where it: "db (table s) k = Some item" "item ''servedAt'' = None"
    by (auto simp: dPending_def split: option.splits)
  obtain cmd1 where r1: "laundryLatest_read s (pollGetOutcome c1) (pollRequest c1) db = Deliver cmd1"
    using read_pending [where db = db and s = s and k = k and c = c1 and item = item]
      assms(2,3) it by auto
  obtain cmd2 where r2: "laundryLatest_read s (pollGetOutcome c2) (pollRequest c2) db = Deliver cmd2"
    using read_pending [where db = db and s = s and k = k and c = c2 and item = item]
      assms(2,4) it by auto
  show ?thesis
    using r1 r2
    by (simp add: dpollStep_def split_beta deliveries_def mark_delivers)
qed

lemma durable_sequential:
  assumes "dPending db (table s) k" and "k \<noteq> []" and "pollsDevice s k c1" and "pollsDevice s k c2"
    and "pollUpdOutcome c1 = None"
  shows "deliveries (fst (interleave (dpollStep s) [0, 0, 1, 1] ([Waiting c1, Waiting c2], db))) = 1"
proof -
  from assms(1) obtain item where it: "db (table s) k = Some item" "item ''servedAt'' = None"
    by (auto simp: dPending_def split: option.splits)
  obtain cmd1 where r1: "laundryLatest_read s (pollGetOutcome c1) (pollRequest c1) db = Deliver cmd1"
    and k1: "latestDeviceID cmd1 = k"
    using read_pending [where db = db and s = s and k = k and c = c1 and item = item]
      assms(2,3) it by auto
  let ?db1 = "snd (laundryLatest_mark s (pollNow c1) None cmd1 db)"
  obtain item' where it': "?db1 (table s) k = Some item'" "item' ''servedAt'' \<noteq> None"
    using mark_ok_serves [of s "pollNow c1" cmd1 db] k1 by auto
  have r2: "laundryLatest_read s (pollGetOutcome c2) (pollRequest c2) ?db1
              = Return (resp 200 (jsonLatestResponse None))"
    using read_served [where db = ?db1 and s = s and k = k and c = c2 and item = item']
      assms(2,4) it' by auto
  show ?thesis
    using r1 r2 assms(5)
    by (simp add: dpollStep_def split_beta deliveries_def mark_delivers delivered_resp_null)
qed

text \<open>
  A body that does not decode is answered 400 on the three paths that read one, before the
  token is looked at (in the volatile backend after the method check), and the store is
  left as it was.
\<close>

lemma undecodable_body_rejected:
  "(Decoded r = None
      \<longrightarrow> startMachine secret now r st =
            (if Method r \<noteq> ''POST'' then writeErr 405 ''method not allowed''
             else writeErr 400 ''invalid json'', st))
   \<and> (Unmarshalled qa = None
      \<longrightarrow> laundryStart_handler s now putOutcome qa db =
            (resp 400 (errorBody ''invalid json''), db))
   \<and> (Unmarshalled qc = None
      \<longrightarrow> laundryUpdateStats_handler formatFloat s now putOutcome qc db =
            (resp 400 (errorBody ''invalid json''), db))"
  by (simp add: handler_defs)

section \<open>The claims\<close>

subsection \<open>C1: serve-once delivery\<close>




subsection \<open>C2: concurrent polls of one device\<close>

text \<open>
  Claim C2. Volatile backend: whatever the order in which concurrent polls of one device
  take the mutex, and whatever the state, at most one of them returns a command. Durable
  backend: the poll reads, then writes the mark without a condition, so when two polls
  of a pending command both read before either writes, both return it; run one after the
  other (the first mark succeeding), only the first does.
\<close>

theorem concurrent_polls:
  "(list_all (\<lambda>r. QueryGet (Query r) ''deviceId'' = d) rs
      \<longrightarrow> deliveries (fst (interleave (vpollStep secret) sched (map Waiting rs, st))) \<le> 1)
   \<and> (dPending db (table s) k \<and> k \<noteq> [] \<and> pollsDevice s k ca \<and> pollsDevice s k cb
      \<longrightarrow> deliveries (fst (interleave (dpollStep s) [0, 1, 0, 1] ([Waiting ca, Waiting cb], db))) = 2)
   \<and> (dPending db (table s) k \<and> k \<noteq> [] \<and> pollsDevice s k ca \<and> pollsDevice s k cb
        \<and> pollUpdOutcome ca = None
      \<longrightarrow> deliveries (fst (interleave (dpollStep s) [0, 0, 1, 1] ([Waiting ca, Waiting cb], db))) = 1)"
  using volatile_concurrent_polls [of d rs secret sched st] durable_race [of db s k ca cb]
    durable_sequential [of db s k ca cb]
  by blast

text \<open>
  At concrete inputs: three concurrent polls in the volatile backend, two in the durable
  one.
\<close>

theorem concurrent_polls_witness:
  "deliveries (fst (interleave (vpollStep exSecret) [2, 0, 1, 0]
      (map Waiting [vPoll ''D1'' ''s3cret'', vPoll ''D1'' ''s3cret'', vPoll ''D1'' ''s3cret''],
       exPendingState))) = 1
   \<and> dPending (exPendingDB ''30'' ''1000'') ''commands'' ''D1''
   \<and> pollsDevice exServer ''D1'' (exPollCall 1100)
   \<and> deliveries (fst (interleave (dpollStep exServer) [0, 1, 0, 1]
        ([Waiting (exPollCall 1100), Waiting (exPollCall 1101)], exPendingDB ''30'' ''1000''))) = 2
   \<and> deliveries (fst (interleave (dpollStep exServer) [0, 0, 1, 1]
        ([Waiting (exPollCall 1100), Waiting (exPollCall 1101)], exPendingDB ''30'' ''1000''))) = 1"
  using concurrent_polls [where d = "''D1''"
      and rs = "[vPoll ''D1'' ''s3cret'', vPoll ''D1'' ''s3cret'', vPoll ''D1'' ''s3cret'']"
      and secret = exSecret and sched = "[2, 0, 1, 0]" and st = exPendingState
      and db = "exPendingDB ''30'' ''1000''" and s = exServer and k = "''D1''"
      and ca = "exPollCall 1100" and cb = "exPollCall 1101"]
  by (simp add: run_defs example_defs exPollCall_def pollsDevice_def dPending_def deliveries_def
      vpollStep_def dpollStep_def numeral_2_eq_2)

subsection \<open>C3: a submit resets the consumption marker\<close>

text \<open>
  Claim C3 says that a poll right after a submit returns the new command even when the
  previous one was already served. In the volatile backend \<^verbatim>\<open>startMachine\<close> leaves the
  watermark \<^verbatim>\<open>lastServedAt\<close> alone, and \<^verbatim>\<open>getLatest\<close> takes a command whose
  \<^verbatim>\<open>CreatedAt\<close> is not above it for served. The code evaluated on: submit at clock
  1000, poll, submit again with the clock still (or again) at 1000, poll. All four calls
  answer 200; the second command is never delivered. The durable backend, on the same
  calls, delivers it.
\<close>

theorem submit_after_served_same_clock:
  "map StatusCode (fst (vrun exSecret
      [VStart 1000 (vSubmit ''D1'' ''wash'' 30 ''s3cret''),
       VLatest (vPoll ''D1'' ''s3cret''),
       VStart 1000 (vSubmit ''D1'' ''dry'' 45 ''s3cret''),
       VLatest (vPoll ''D1'' ''s3cret'')] exState0)) = [200, 200, 200, 200]
   \<and> map delivered (fst (vrun exSecret
      [VStart 1000 (vSubmit ''D1'' ''wash'' 30 ''s3cret''),
       VLatest (vPoll ''D1'' ''s3cret''),
       VStart 1000 (vSubmit ''D1'' ''dry'' 45 ''s3cret''),
       VLatest (vPoll ''D1'' ''s3cret'')] exState0))
     = [None,
        Some (jsonCommand \<lparr>DeviceID = ''D1'', Type = ''wash'', DurationMinutes = 30,
                            CreatedAt = 1000, Token = []\<rparr>),
        None, None]
   \<and> map delivered (fst (drun
      [DStart exServer 1000 None (dSubmit ''D1'' ''wash'' 30 ''s3cret''),
       DLatest exServer 1000 None None (dPoll ''D1'' ''s3cret''),
       DStart exServer 1000 None (dSubmit ''D1'' ''dry'' 45 ''s3cret''),
       DLatest exServer 1000 None None (dPoll ''D1'' ''s3cret'')] exDB0))
     = [None,
        Some (jsonLatestCommand \<lparr>latestDeviceID = ''D1'', latestType = ''wash'',
                                   latestDurationMinutes = 30, latestCreatedAt = 1000\<rparr>),
        None,
        Some (jsonLatestCommand \<lparr>latestDeviceID = ''D1'', latestType = ''dry'',
                                   latestDurationMinutes = 45, latestCreatedAt = 1000\<rparr>)]"
  by (simp add: run_defs example_defs)

subsection \<open>C4: a submit without a device id\<close>

text \<open>
  Claim C4 says that every submit whose device id is empty, missing or white space only is
  answered 400 and leaves the store unwritten. The durable backend trims the device id
  before it tests it (\<open>strings.TrimSpace\<close> in laundryStart); the volatile backend tests
  \<open>cmd.DeviceID == ""\<close> on the untrimmed value. So a submit whose device id is two spaces,
  with the right token, a good type and a positive duration, passes every check of
  \<open>startMachine\<close>: it is answered 200 and the command is stored under the key of two
  spaces. The durable handler answers the same submit 400 and leaves its table as it was.
\<close>

theorem submit_blank_deviceId_stored:
  "startMachine exSecret 1000 (vSubmit ''  '' ''wash'' 30 ''s3cret'') exState0 =
     (writeJSON 200 (JObj [(''createdAt'', JInt 1000), (''ok'', JBool True)]),
      exState0\<lparr>latestByDevice := (latestByDevice exState0)(''  '' \<mapsto>
         \<lparr>DeviceID = ''  '', Type = ''wash'', DurationMinutes = 30, CreatedAt = 1000,
          Token = []\<rparr>)\<rparr>)
   \<and> laundryStart_handler exServer 1000 None (dSubmit ''  '' ''wash'' 30 ''s3cret'') exDB0 =
     (resp 400 (errorBody ''deviceId required''), exDB0)"
  by (simp add: eval_defs example_defs)

text \<open>
  What both backends do guarantee. A submit whose device id is empty or missing (durable
  backend: empty once surrounding white space is trimmed) never writes the store. Its
  status is 400 when the token is good; the token is checked before the device id, so it
  is 401 when the token is bad (and, in the volatile backend, 405 when the method is not
  POST).
\<close>

lemma submit_empty_deviceId:
  "(Decoded r = Some cmd \<and> DeviceID cmd = []
      \<longrightarrow> snd (startMachine secret now r st) = st
          \<and> StatusCode (fst (startMachine secret now r st)) =
              (if Method r \<noteq> ''POST'' then 405
               else if badToken (Token cmd) secret then 401 else 400))
   \<and> (Unmarshalled q = Some c \<and> TrimSpace (startDeviceID c) = []
      \<longrightarrow> snd (laundryStart_handler s now' putOutcome q db) = db
          \<and> StatusCode (fst (laundryStart_handler s now' putOutcome q db)) =
              (if badToken (startToken c) (sharedSecret s) then 401 else 400))"
  by (auto simp: handler_defs resp_defs Let_def unauthorized_iff volatile_check_iff)

text \<open>
  At concrete inputs: an empty device id with the right token in the volatile backend, and
  an empty and a blank device id with a bad token.
\<close>

lemma submit_empty_deviceId_examples:
  "startMachine exSecret 1000 (vSubmit [] ''wash'' 30 ''s3cret'') exState0 =
        (writeErr 400 ''deviceId required'', exState0)
   \<and> StatusCode (fst (startMachine exSecret 1000 (vSubmit [] ''wash'' 30 []) exState0)) = 401
   \<and> StatusCode (fst (laundryStart_handler exServer 1000 None (dSubmit ''  '' ''wash'' 30 ''wrong'') exDB0)) = 401"
  by (simp add: eval_defs example_defs)

subsection \<open>C5: authorization fails closed\<close>

text \<open>
  Claim C5 says that every operation answers 401 whenever the token is bad. On the poll and
  get-stats paths the device id is checked first: a request with no device id and no token
  is answered 400.
\<close>

theorem unauthorized_requests_rejected_counterexample:
  "StatusCode (fst (getLatest exSecret (vPoll [] []) exState0)) = 400
   \<and> StatusCode (fst (laundryLatest_handler exServer 1000 None None (dPoll [] []) exDB0)) = 400
   \<and> StatusCode (fst (laundryGetStats_handler (\<lambda>v. None) exServer None (dPoll [] []) exDB0)) = 400"
  by (simp add: eval_defs example_defs)

text \<open>
  Claim C5 as amended: with a bad token (empty, or different from the secret, or no secret
  configured) every operation returns its store as it was, with a response that does not
  depend on the store or on the outcome of any store call: 401, unless an earlier check
  answers first, 405 for the wrong method in the volatile backend and 400 for a missing
  device id on the poll and get-stats paths. On the submit and update-stats paths the token
  is a field of the body: a body that does not decode carries no token and is answered 400
  (\<open>invalid json\<close>) before any token is looked at, the store left as it was (lemma
  \<open>undecodable_body_rejected\<close>); the statement is about bodies that decode.
\<close>

theorem unauthorized_requests_rejected:
  assumes "badToken token secret"
  shows
  "(Decoded r = Some cmd \<and> Token cmd = token
      \<longrightarrow> startMachine secret now r st =
            (if Method r \<noteq> ''POST'' then writeErr 405 ''method not allowed''
             else writeErr 401 ''unauthorized'', st))
   \<and> (QueryGet (Query r') ''token'' = token
      \<longrightarrow> getLatest secret r' st =
            (if Method r' \<noteq> ''GET'' then writeErr 405 ''method not allowed''
             else if QueryGet (Query r') ''deviceId'' = [] then writeErr 400 ''deviceId required''
             else writeErr 401 ''unauthorized'', st))
   \<and> (sharedSecret s = secret \<and> Unmarshalled qa = Some c \<and> startToken c = token
      \<longrightarrow> laundryStart_handler s now putOutcome qa db =
            (resp 401 (errorBody ''unauthorized''), db))
   \<and> (sharedSecret s = secret \<and> IndexParam (QueryStringParameters qb) ''token'' = token
      \<longrightarrow> laundryLatest_handler s now getOutcome updOutcome qb db =
            (if TrimSpace (IndexParam (QueryStringParameters qb) ''deviceId'') = []
             then resp 400 (errorBody ''deviceId required'')
             else resp 401 (errorBody ''unauthorized''), db))
   \<and> (sharedSecret s = secret \<and> Unmarshalled qc = Some stats \<and> statsToken stats = token
      \<longrightarrow> laundryUpdateStats_handler formatFloat s now putOutcome qc db =
            (resp 401 (errorBody ''unauthorized''), db))
   \<and> (sharedSecret s = secret \<and> IndexParam (QueryStringParameters qd) ''token'' = token
      \<longrightarrow> laundryGetStats_handler parseFloat s getOutcome qd db =
            (if TrimSpace (IndexParam (QueryStringParameters qd) ''deviceId'') = []
             then resp 400 (errorBody ''deviceId required'')
             else resp 401 (errorBody ''unauthorized''), db))"
  using assms
  by (auto simp: handler_defs Let_def unauthorized_iff volatile_check_iff)

text \<open>
  At concrete inputs: the token \<open>wrong\<close> against the secret \<open>s3cret\<close>, on all six handlers.
\<close>

theorem unauthorized_requests_rejected_witness:
  "badToken ''wrong'' exSecret
   \<and> startMachine exSecret 1000 (vSubmit ''D1'' ''wash'' 30 ''wrong'') exServedState =
        (writeErr 401 ''unauthorized'', exServedState)
   \<and> getLatest exSecret (vPoll ''D1'' ''wrong'') exServedState =
        (writeErr 401 ''unauthorized'', exServedState)
   \<and> laundryStart_handler exServer 1000 None (dSubmit ''D1'' ''wash'' 30 ''wrong'')
          (exPendingDB ''30'' ''1000'') =
        (resp 401 (errorBody ''unauthorized''), exPendingDB ''30'' ''1000'')
   \<and> laundryLatest_handler exServer 1000 None None (dPoll ''D1'' ''wrong'')
          (exPendingDB ''30'' ''1000'') =
        (resp 401 (errorBody ''unauthorized''), exPendingDB ''30'' ''1000'')
   \<and> laundryUpdateStats_handler (\<lambda>x. ''12.50'') exServer 1000 None
          (dUpdateStats ''D1'' 0 7 ''wrong'') (exPendingDB ''30'' ''1000'') =
        (resp 401 (errorBody ''unauthorized''), exPendingDB ''30'' ''1000'')
   \<and> laundryGetStats_handler (\<lambda>v. None) exServer None (dPoll ''D1'' ''wrong'')
          (exPendingDB ''30'' ''1000'') =
        (resp 401 (errorBody ''unauthorized''), exPendingDB ''30'' ''1000'')"
  using unauthorized_requests_rejected [where token = "''wrong''" and secret = exSecret
      and r = "vSubmit ''D1'' ''wash'' 30 ''wrong''"
      and cmd = "\<lparr>DeviceID = ''D1'', Type = ''wash'', DurationMinutes = 30, CreatedAt = 0,
                   Token = ''wrong''\<rparr>"
      and now = 1000 and st = exServedState
      and r' = "vPoll ''D1'' ''wrong''"
      and s = exServer and qa = "dSubmit ''D1'' ''wash'' 30 ''wrong''"
      and c = "\<lparr>startDeviceID = ''D1'', startType = ''wash'', startDurationMinutes = 30,
                 startToken = ''wrong''\<rparr>"
      and putOutcome = None and db = "exPendingDB ''30'' ''1000''"
      and qb = "dPoll ''D1'' ''wrong''" and getOutcome = None and updOutcome = None
      and qc = "dUpdateStats ''D1'' 0 7 ''wrong''"
      and stats = "\<lparr>statsDeviceID = ''D1'', TotalSpent = 0, NumRuns = 7,
                     statsToken = ''wrong''\<rparr>"
      and formatFloat = "\<lambda>x. ''12.50''"
      and qd = "dPoll ''D1'' ''wrong''" and parseFloat = "\<lambda>v. None"]
  by (simp add: badToken_def example_defs QueryGet_def IndexParam_def TrimSpace_def
      TrimRightSpace_def TrimLeftSpace.simps TrimRightSpaceRev.simps asciiSpace_def space2_def
      space3_def)

subsection \<open>C7: the body of a successful update-stats response\<close>

text \<open>
  Claim C7 says that \<^verbatim>\<open>lastUpdatedAt\<close> is a JSON integer. The handler puts the string
  \<^verbatim>\<open>updatedAtStr\<close> into the response map, so the field is a JSON string.
\<close>

theorem updateStats_lastUpdatedAt_counterexample:
  "fst (laundryUpdateStats_handler (\<lambda>x. ''12.50'') exServer 1700000000000 None
          (dUpdateStats ''D1'' 0 7 ''s3cret'') exDB0)
     = resp 200 (JObj [(''lastUpdatedAt'', JStr ''1700000000000''), (''ok'', JBool True)])"
  by (simp add: eval_defs example_defs FormatInt_def digitsOf.simps digitChar_def)

text \<open>
  Claim C7 as amended: every update-stats response with status 200 has the body
  \<^verbatim>\<open>{"lastUpdatedAt": s, "ok": true}\<close> where \<open>s\<close> is a JSON string, the decimal
  digits of the millisecond timestamp taken at the write (parsing it gives the timestamp
  back).
\<close>

theorem updateStats_lastUpdatedAt_string:
  "(StatusCode (fst (laundryUpdateStats_handler formatFloat s now putOutcome q db)) = 200
      \<longrightarrow> Body (fst (laundryUpdateStats_handler formatFloat s now putOutcome q db)) =
            JObj [(''lastUpdatedAt'', JStr (FormatInt now)), (''ok'', JBool True)])
   \<and> ParseInt (FormatInt now) = Some now"
  by (auto simp: handler_defs resp_defs Let_def ParseInt_FormatInt PutItem_def
      split: option.splits prod.splits)

text \<open>
  At a concrete input: a good update at clock 1700000000000.
\<close>

theorem updateStats_lastUpdatedAt_string_witness:
  "StatusCode (fst (laundryUpdateStats_handler (\<lambda>x. ''12.50'') exServer 1700000000000 None
          (dUpdateStats ''D1'' 0 7 ''s3cret'') exDB0)) = 200
   \<and> Body (fst (laundryUpdateStats_handler (\<lambda>x. ''12.50'') exServer 1700000000000 None
          (dUpdateStats ''D1'' 0 7 ''s3cret'') exDB0)) =
        JObj [(''lastUpdatedAt'', JStr ''1700000000000''), (''ok'', JBool True)]
   \<and> ParseInt ''1700000000000'' = Some 1700000000000"
  using updateStats_lastUpdatedAt_string [where formatFloat = "\<lambda>x. ''12.50''" and s = exServer
      and now = 1700000000000 and putOutcome = None
      and q = "dUpdateStats ''D1'' 0 7 ''s3cret''" and db = exDB0]
  by (simp add: eval_defs example_defs FormatInt_def digitsOf.simps digitChar_def)

subsection \<open>C8: a poll in the states NoCommand and Served\<close>

text \<open>
  Claim C8: for a device with no stored command, or with a stored command already served,
  a poll (a well-formed one: GET, a device id, a good token, and in the durable backend a
  read that succeeds) returns \<^verbatim>\<open>{"command": null}\<close> with status 200, and the stored
  state is what it was. Whatever the request and the outcome of the store calls, a poll
  for such a device changes nothing and delivers nothing.
\<close>

theorem takeNext_idle_unchanged:
  "(Method r = ''GET'' \<and> QueryGet (Query r) ''deviceId'' = d \<and> d \<noteq> []
      \<and> \<not> badToken (QueryGet (Query r) ''token'') secret
      \<and> (vNoCommand st d \<or> vServed st d)
      \<longrightarrow> getLatest secret r st = (writeJSON 200 (jsonLatestResponse None), st))
   \<and> (QueryGet (Query r) ''deviceId'' = d \<and> (vNoCommand st d \<or> vServed st d)
      \<longrightarrow> snd (getLatest secret r st) = st \<and> delivered (fst (getLatest secret r st)) = None)
   \<and> (TrimSpace (IndexParam (QueryStringParameters q) ''deviceId'') = k \<and> k \<noteq> []
      \<and> \<not> badToken (IndexParam (QueryStringParameters q) ''token'') (sharedSecret s)
      \<and> (dNoCommand db (table s) k \<or> dServed db (table s) k)
      \<longrightarrow> laundryLatest_handler s now None updOutcome q db =
            (resp 200 (jsonLatestResponse None), db))
   \<and> (TrimSpace (IndexParam (QueryStringParameters q) ''deviceId'') = k
      \<and> (dNoCommand db (table s) k \<or> dServed db (table s) k)
      \<longrightarrow> snd (laundryLatest_handler s now getOutcome updOutcome q db) = db
          \<and> delivered (fst (laundryLatest_handler s now getOutcome updOutcome q db)) = None)"
  by (auto simp: handler_defs resp_defs Let_def unauthorized_iff volatile_check_iff
      vNoCommand_def vServed_def dNoCommand_def dServed_def delivered_def jsonLatestResponse_def
      GetItem_def split: option.splits)

text \<open>
  At concrete inputs: both states in both backends.
\<close>

theorem takeNext_idle_unchanged_witness:
  "vNoCommand exState0 ''D1''
   \<and> getLatest exSecret (vPoll ''D1'' ''s3cret'') exState0 =
        (writeJSON 200 (jsonLatestResponse None), exState0)
   \<and> vServed exServedState ''D1''
   \<and> getLatest exSecret (vPoll ''D1'' ''s3cret'') exServedState =
        (writeJSON 200 (jsonLatestResponse None), exServedState)
   \<and> dNoCommand exDB0 ''commands'' ''D1''
   \<and> laundryLatest_handler exServer 2000 None None (dPoll '' D1 '' ''s3cret'') exDB0 =
        (resp 200 (jsonLatestResponse None), exDB0)
   \<and> dServed exServedDB ''commands'' ''D1''
   \<and> laundryLatest_handler exServer 2000 None None (dPoll '' D1 '' ''s3cret'') exServedDB =
        (resp 200 (jsonLatestResponse None), exServedDB)"
  using takeNext_idle_unchanged [where r = "vPoll ''D1'' ''s3cret''" and d = "''D1''"
      and secret = exSecret and st = exState0 and q = "dPoll '' D1 '' ''s3cret''"
      and k = "''D1''" and s = exServer and db = exDB0 and now = 2000 and updOutcome = None
      and getOutcome = None]
    takeNext_idle_unchanged [where r = "vPoll ''D1'' ''s3cret''" and d = "''D1''"
      and secret = exSecret and st = exServedState and q = "dPoll '' D1 '' ''s3cret''"
      and k = "''D1''" and s = exServer and db = exServedDB and now = 2000 and updOutcome = None
      and getOutcome = None]
  by (simp add: eval_defs example_defs vNoCommand_def vServed_def dNoCommand_def dServed_def)

subsection \<open>C9: decoding of stored numbers on the poll path\<close>

text \<open>
  Claim C9 says that \<^verbatim>\<open>mustInt64\<close> decodes a stored string to the integer value of its
  longest leading run of decimal digits. The accumulator is an \<^verbatim>\<open>int64\<close> and wraps: a
  run of digits worth 9223372036854775808 decodes to -9223372036854775808.
\<close>

theorem mustInt64_counterexample:
  "natOfDigits 0 (takeWhile isDigit ''9223372036854775808.5'') = 9223372036854775808
   \<and> sint (mustInt64 ''9223372036854775808.5'') = - 9223372036854775808"
  by (simp add: mustInt64_def isDigit_def)

text \<open>
  Claim C9 as amended: \<^verbatim>\<open>mustInt64\<close> never fails; it returns the value of the longest
  leading run of decimal digits reduced to 64 bits, which is that value itself when it is
  below \<open>2 ^ 63\<close>, and 0 when the string is empty or starts with a non-digit. A poll that
  finds an unserved item whose \<^verbatim>\<open>durationMinutes\<close> and \<^verbatim>\<open>createdAt\<close> are numbers
  answers 200 with the command holding these decoded values, however the strings look.
\<close>

theorem mustInt64_leading_digits:
  "mustInt64 v = word_of_nat (natOfDigits 0 (takeWhile isDigit v))
   \<and> (natOfDigits 0 (takeWhile isDigit v) < 2 ^ 63
        \<longrightarrow> sint (mustInt64 v) = int (natOfDigits 0 (takeWhile isDigit v)))
   \<and> (v = [] \<or> \<not> isDigit (hd v) \<longrightarrow> mustInt64 v = 0)
   \<and> (TrimSpace (IndexParam (QueryStringParameters q) ''deviceId'') = d \<and> d \<noteq> []
        \<and> \<not> badToken (IndexParam (QueryStringParameters q) ''token'') (sharedSecret s)
        \<and> db (table s) d = Some item \<and> item ''servedAt'' = None
        \<and> item ''durationMinutes'' = Some (AttributeValueMemberN va)
        \<and> item ''createdAt'' = Some (AttributeValueMemberN vb)
      \<longrightarrow> fst (laundryLatest_handler s now None updOutcome q db) =
            resp 200 (jsonLatestResponse (Some (jsonLatestCommand
              \<lparr>latestDeviceID = d,
               latestType = (case item ''type'' of
                               Some (AttributeValueMemberS t) \<Rightarrow> t | _ \<Rightarrow> []),
               latestDurationMinutes = mustInt64 va,
               latestCreatedAt = mustInt64 vb\<rparr>))))"
proof -
  let ?n = "natOfDigits 0 (takeWhile isDigit v)"
  have a: "mustInt64 v = word_of_nat ?n" by (rule mustInt64_eq)
  have b: "?n < 2 ^ 63 \<longrightarrow> sint (mustInt64 v) = int ?n"
  proof
    assume lt: "?n < 2 ^ 63"
    have "sint (word_of_nat ?n :: int64) = int ?n"
      using lt by (rule sint_word_of_nat_small)
    then show "sint (mustInt64 v) = int ?n" by (simp add: a)
  qed
  have c: "v = [] \<or> \<not> isDigit (hd v) \<longrightarrow> mustInt64 v = 0"
    by (cases v) (auto simp: mustInt64_eq)
  have d: "TrimSpace (IndexParam (QueryStringParameters q) ''deviceId'') = d \<and> d \<noteq> []
        \<and> \<not> badToken (IndexParam (QueryStringParameters q) ''token'') (sharedSecret s)
        \<and> db (table s) d = Some item \<and> item ''servedAt'' = None
        \<and> item ''durationMinutes'' = Some (AttributeValueMemberN va)
        \<and> item ''createdAt'' = Some (AttributeValueMemberN vb)
      \<longrightarrow> fst (laundryLatest_handler s now None updOutcome q db) =
            resp 200 (jsonLatestResponse (Some (jsonLatestCommand
              \<lparr>latestDeviceID = d,
               latestType = (case item ''type'' of
                               Some (AttributeValueMemberS t) \<Rightarrow> t | _ \<Rightarrow> []),
               latestDurationMinutes = mustInt64 va,
               latestCreatedAt = mustInt64 vb\<rparr>)))"
    by (auto simp: handler_defs Let_def unauthorized_iff GetItem_def UpdateItem_SET_servedAt_def
        split: option.splits)
  from a b c d show ?thesis by blast
qed

text \<open>
  At concrete inputs: \<open>12.5\<close> decodes to 12 and \<open>-5\<close> to 0; an item storing
  \<open>30.5\<close> and \<open>-7\<close> is delivered as 30 and 0.
\<close>

theorem mustInt64_leading_digits_witness:
  "mustInt64 ''12.5'' = 12 \<and> sint (mustInt64 ''12.5'') = 12 \<and> mustInt64 ''-5'' = 0
   \<and> fst (laundryLatest_handler exServer 2000 None None (dPoll ''D1'' ''s3cret'')
             (exPendingDB ''30.5'' ''-7'')) =
       resp 200 (jsonLatestResponse (Some (jsonLatestCommand
         \<lparr>latestDeviceID = ''D1'', latestType = ''wash'', latestDurationMinutes = 30,
          latestCreatedAt = 0\<rparr>)))"
  using mustInt64_leading_digits [where v = "''12.5''" and q = "dPoll ''D1'' ''s3cret''"
      and d = "''D1''" and s = exServer and db = "exPendingDB ''30.5'' ''-7''"
      and item = "exItem ''30.5'' ''-7''" and va = "''30.5''" and vb = "''-7''"
      and now = 2000 and updOutcome = None]
    mustInt64_leading_digits [where v = "''-5''" and q = "dPoll ''D1'' ''s3cret''"
      and d = "''D1''" and s = exServer and db = "exPendingDB ''30.5'' ''-7''"
      and item = "exItem ''30.5'' ''-7''" and va = "''30.5''" and vb = "''-7''"
      and now = 2000 and updOutcome = None]
  by (simp add: eval_defs example_defs mustInt64_def isDigit_def)

subsection \<open>C10: the device id is checked before the token on the read paths\<close>

text \<open>
  Claim C10: on the poll and get-stats paths a request with an empty device id (durable
  backend: empty once trimmed) is answered 400 whatever its token, and 401 is only ever
  the answer to a request whose device id is not empty.
\<close>

theorem deviceId_checked_before_token:
  "(Method r = ''GET'' \<and> QueryGet (Query r) ''deviceId'' = []
      \<longrightarrow> StatusCode (fst (getLatest secret r st)) = 400)
   \<and> (TrimSpace (IndexParam (QueryStringParameters q) ''deviceId'') = []
      \<longrightarrow> StatusCode (fst (laundryLatest_handler s now getOutcome updOutcome q db)) = 400)
   \<and> (TrimSpace (IndexParam (QueryStringParameters q') ''deviceId'') = []
      \<longrightarrow> StatusCode (fst (laundryGetStats_handler parseFloat s' getOutcome' q' db')) = 400)
   \<and> (StatusCode (fst (getLatest secret r st)) = 401
      \<longrightarrow> QueryGet (Query r) ''deviceId'' \<noteq> [])
   \<and> (StatusCode (fst (laundryLatest_handler s now getOutcome updOutcome q db)) = 401
      \<longrightarrow> TrimSpace (IndexParam (QueryStringParameters q) ''deviceId'') \<noteq> [])
   \<and> (StatusCode (fst (laundryGetStats_handler parseFloat s' getOutcome' q' db')) = 401
      \<longrightarrow> TrimSpace (IndexParam (QueryStringParameters q') ''deviceId'') \<noteq> [])"
  by (auto simp: handler_defs resp_defs Let_def)

text \<open>
  At concrete inputs: a wrong token with no device id, with a blank one, and with the
  device id \<open>D1\<close>.
\<close>

theorem deviceId_checked_before_token_witness:
  "StatusCode (fst (getLatest exSecret (vPoll [] ''wrong'') exState0)) = 400
   \<and> StatusCode (fst (laundryLatest_handler exServer 0 None None (dPoll ''  '' ''wrong'') exDB0)) = 400
   \<and> StatusCode (fst (laundryGetStats_handler (\<lambda>v. None) exServer None (dPoll ''  '' ''wrong'') exDB0)) = 400
   \<and> StatusCode (fst (getLatest exSecret (vPoll ''D1'' ''wrong'') exState0)) = 401
   \<and> StatusCode (fst (laundryLatest_handler exServer 0 None None (dPoll ''D1'' ''wrong'') exDB0)) = 401
   \<and> StatusCode (fst (laundryGetStats_handler (\<lambda>v. None) exServer None (dPoll ''D1'' ''wrong'') exDB0)) = 401"
  using deviceId_checked_before_token [where r = "vPoll [] ''wrong''" and secret = exSecret
      and st = exState0 and q = "dPoll ''  '' ''wrong''" and s = exServer and now = 0
      and getOutcome = None and updOutcome = None and q' = "dPoll ''  '' ''wrong''"
      and parseFloat = "\<lambda>v. None" and s' = exServer and getOutcome' = None and db = exDB0
      and db' = exDB0]
    deviceId_checked_before_token [where r = "vPoll ''D1'' ''wrong''" and secret = exSecret
      and st = exState0 and q = "dPoll ''D1'' ''wrong''" and s = exServer and now = 0
      and getOutcome = None and updOutcome = None and q' = "dPoll ''D1'' ''wrong''"
      and parseFloat = "\<lambda>v. None" and s' = exServer and getOutcome' = None and db = exDB0
      and db' = exDB0]
  by (simp add: eval_defs example_defs)

end
